theory Spec2Isabelle
  imports Complex_Main "HOL-Library.Sublist"
begin

section \<open>Data model\<close>

subsection \<open>JavaScript numbers\<close>

text \<open>
  A JavaScript \<open>Number\<close> is an IEEE 754 double: a sign and a magnitude that is
  either a finite rational with a 53-bit significand or infinite, or \<open>NaN\<close>.
  Every arithmetic operation computes the exact result and rounds it to the nearest
  double, ties to the even significand (\<open>roundMagnitude\<close>): the spacing of the
  doubles around a value \<open>x\<close> is \<open>2 ^ (e - 52)\<close> for the exponent \<open>e\<close> of \<open>x\<close>,
  never below the exponent -1022 of the subnormal range, and a rounded magnitude of
  \<open>2 ^ 1024\<close> or more is infinite.
\<close>

datatype magnitude = Finite rat | Infinite

datatype number = Number bool magnitude | NaN

fun bitLength :: "nat \<Rightarrow> nat" where
  "bitLength n = (if n = 0 then 0 else Suc (bitLength (n div 2)))"

declare bitLength.simps [simp del]

text \<open>The exponent of a positive rational: \<open>2 ^ e \<le> x < 2 ^ (e + 1)\<close>.\<close>

definition log2floor :: "rat \<Rightarrow> int" where
  "log2floor x =
    (if 1 \<le> x then int (bitLength (nat \<lfloor>x\<rfloor>)) - 1
     else - int (bitLength (nat (\<lceil>1 / x\<rceil> - 1))))"

definition roundHalfEven :: "rat \<Rightarrow> int" where
  "roundHalfEven r =
    (let f = \<lfloor>r\<rfloor>; d = r - of_int f
     in if d < 1 / 2 then f
        else if 1 / 2 < d then f + 1
        else if even f then f else f + 1)"

definition roundMagnitude :: "rat \<Rightarrow> magnitude" where
  "roundMagnitude x =
    (if x = 0 then Finite 0
     else (let e = max (log2floor x) (- 1022);
               q = 2 powi (e - 52);
               y = of_int (roundHalfEven (x / q)) * q
           in if 2 powi 1024 \<le> y then Infinite else Finite y))"

definition signed :: "bool \<Rightarrow> rat \<Rightarrow> rat" where
  "signed s a = (if s then - a else a)"

text \<open>The operators \<open>+\<close>, \<open>*\<close> and \<open>/\<close> on numbers.\<close>

fun nadd :: "number \<Rightarrow> number \<Rightarrow> number" where
  "nadd (Number s (Finite a)) (Number t (Finite b)) =
     (let v = signed s a + signed t b
      in if v = 0 then Number (s \<and> t) (Finite 0)
         else Number (v < 0) (roundMagnitude \<bar>v\<bar>))"
| "nadd (Number s (Finite a)) (Number t Infinite) = Number t Infinite"
| "nadd (Number s Infinite) (Number t (Finite b)) = Number s Infinite"
| "nadd (Number s Infinite) (Number t Infinite) = (if s = t then Number s Infinite else NaN)"
| "nadd NaN y = NaN"
| "nadd x NaN = NaN"

fun nmul :: "number \<Rightarrow> number \<Rightarrow> number" where
  "nmul (Number s (Finite a)) (Number t (Finite b)) = Number (s \<noteq> t) (roundMagnitude (a * b))"
| "nmul (Number s (Finite a)) (Number t Infinite) =
     (if a = 0 then NaN else Number (s \<noteq> t) Infinite)"
| "nmul (Number s Infinite) (Number t (Finite b)) =
     (if b = 0 then NaN else Number (s \<noteq> t) Infinite)"
| "nmul (Number s Infinite) (Number t Infinite) = Number (s \<noteq> t) Infinite"
| "nmul NaN y = NaN"
| "nmul x NaN = NaN"

fun ndiv :: "number \<Rightarrow> number \<Rightarrow> number" where
  "ndiv (Number s (Finite a)) (Number t (Finite b)) =
     (if b = 0 then (if a = 0 then NaN else Number (s \<noteq> t) Infinite)
      else Number (s \<noteq> t) (roundMagnitude (a / b)))"
| "ndiv (Number s (Finite a)) (Number t Infinite) = Number (s \<noteq> t) (Finite 0)"
| "ndiv (Number s Infinite) (Number t (Finite b)) = Number (s \<noteq> t) Infinite"
| "ndiv (Number s Infinite) (Number t Infinite) = NaN"
| "ndiv NaN y = NaN"
| "ndiv x NaN = NaN"

text \<open>
  \<open>numOfNat\<close> is the number of a non-negative integer: an array length or an integer
  literal of the source. \<open>orElse\<close> is \<open>x || d\<close> for a number \<open>x\<close> that may be
  absent: \<open>undefined\<close>, both zeros and \<open>NaN\<close> are falsy.
\<close>

definition numOfNat :: "nat \<Rightarrow> number" where
  "numOfNat n = Number False (roundMagnitude (of_nat n))"

fun orElse :: "number option \<Rightarrow> number \<Rightarrow> number" where
  "orElse None d = d"
| "orElse (Some NaN) d = d"
| "orElse (Some (Number s Infinite)) d = Number s Infinite"
| "orElse (Some (Number s (Finite a))) d = (if a = 0 then d else Number s (Finite a))"


subsection \<open>Documents\<close>

text \<open>
  The documents of the two Mongoose collections, reduced to the fields that the
  catalog statistics and the verification decision read or write. An ObjectId is a
  natural number, a \<open>Date\<close> a natural number of milliseconds, \<open>null\<close>/\<open>undefined\<close>
  is \<open>None\<close>.
\<close>

datatype learning_type = Free | Premium | Freemium

record resource =
  rid :: nat
  url :: string
  learningType :: learning_type
  skill :: nat
  verified :: bool
  rating :: number
  enrollmentCount :: "number option"
  viewCount :: number
  isActive :: bool
  deletedAt :: "nat option"

record statistics =
  totalResources :: number
  freeResources :: number
  premiumResources :: number
  averageRating :: number
  totalLearners :: number
  popularityScore :: number

record skill =
  sid :: nat
  resources :: "nat list"
  statistics :: statistics

text \<open>
  The state that the handlers thread through: the two collections, the lines written
  with \<open>console.warn\<close>, and the HTTP requests handed to the network so far.
  A collection of resources is a list in insertion order; skills are looked up by
  identity only, so they form a map.
\<close>

record request =
  req_https :: bool
  req_hostname :: string
  req_port :: string
  req_path :: string
  req_method :: string
  req_timeout :: nat
  req_rejectUnauthorized :: bool

record world =
  skillsColl :: "nat \<rightharpoonup> skill"
  resourcesColl :: "resource list"
  consoleWarn :: "string list"
  netCalls :: "request list"

section \<open>Catalog statistics (models/Skill.js)\<close>

text \<open>
  \<open>skillSchema.methods.updateStatistics\<close>. \<open>findActiveVerified\<close> is its query
  \<open>Resource.find({skill: this._id, isActive: true, verified: true, deletedAt: null})\<close>;
  \<open>reduce\<close> is a left fold; the arithmetic is that of numbers, in the order of
  the source; \<open>this.save()\<close> writes the document back under its identity. The
  method returns the saved document.
\<close>

definition findActiveVerified :: "world \<Rightarrow> nat \<Rightarrow> resource list" where
  "findActiveVerified w skillId =
     filter (\<lambda>r. skill r = skillId \<and> isActive r \<and> verified r \<and> deletedAt r = None)
       (resourcesColl w)"

definition updateStatistics :: "world \<Rightarrow> skill \<Rightarrow> world \<times> skill" where
  "updateStatistics w this =
    (let found = findActiveVerified w (sid this);
         st1 = (statistics this)
                \<lparr> totalResources := numOfNat (length found),
                  freeResources :=
                    numOfNat (length (filter (\<lambda>r. learningType r = Free) found)),
                  premiumResources :=
                    numOfNat (length (filter (\<lambda>r. learningType r = Premium) found)) \<rparr>;
         st2 = (if length found > 0 then
                  (let totalRating = foldl (\<lambda>sum r. nadd sum (rating r)) (numOfNat 0) found;
                       avg = ndiv totalRating (numOfNat (length found));
                       totalEnrollments =
                         foldl (\<lambda>sum r. nadd sum (orElse (enrollmentCount r) (numOfNat 0)))
                           (numOfNat 0) found
                   in st1 \<lparr> averageRating := avg,
                            totalLearners := totalEnrollments,
                            popularityScore :=
                              nadd (nadd (nmul (numOfNat (length found)) (numOfNat 10))
                                         (nmul avg (numOfNat 20)))
                                   (ndiv totalEnrollments (numOfNat 100)) \<rparr>)
                else st1);
         saved = this \<lparr> statistics := st2 \<rparr>
     in (w \<lparr> skillsColl := (skillsColl w)(sid this \<mapsto> saved) \<rparr>, saved))"

text \<open>\<open>addResource\<close> and \<open>removeResource\<close>: membership change, save, refresh.\<close>

definition addResource :: "world \<Rightarrow> skill \<Rightarrow> nat \<Rightarrow> world \<times> skill" where
  "addResource w this resourceId =
    (if \<not> List.member (resources this) resourceId then
       (let pushed = this \<lparr> resources := resources this @ [resourceId] \<rparr>;
            w1 = w \<lparr> skillsColl := (skillsColl w)(sid this \<mapsto> pushed) \<rparr>
        in updateStatistics w1 pushed)
     else (w, this))"

definition removeResource :: "world \<Rightarrow> skill \<Rightarrow> nat \<Rightarrow> world \<times> skill" where
  "removeResource w this resourceId =
    (let kept = this \<lparr> resources := filter (\<lambda>i. i \<noteq> resourceId) (resources this) \<rparr>;
         w1 = w \<lparr> skillsColl := (skillsColl w)(sid this \<mapsto> kept) \<rparr>
     in updateStatistics w1 kept)"

text \<open>
  \<open>save\<close> is modelled as a write that succeeds. Mongoose refuses to assign
  \<open>NaN\<close> to a Number path; no resource that passed the validators of its schema
  (\<open>rating\<close> in 0..5, \<open>enrollmentCount\<close> at least 0) makes the refresh compute one.
\<close>

section \<open>Resource trust verifier (utils/urlVerifier.js)\<close>

text \<open>
  Strings are lists of 8-bit characters, so the model covers the Latin-1 part of
  JavaScript's UTF-16 strings. \<open>trim\<close> removes the white space of that range from both
  ends, \<open>toLowerCase\<close> maps the upper-case letters of that range, \<open>includesStr\<close> is the
  substring test \<open>includes\<close>, and \<open>stripWww\<close> is \<open>replace(/^www\./, '')\<close>.
\<close>

definition isWhiteSpace :: "char \<Rightarrow> bool" where
  "isWhiteSpace c = List.member [CHR 0x09, CHR 0x0A, CHR 0x0B, CHR 0x0C, CHR 0x0D,
                                 CHR 0x20, CHR 0xA0] c"

definition trim :: "string \<Rightarrow> string" where
  "trim s = rev (dropWhile isWhiteSpace (rev (dropWhile isWhiteSpace s)))"

definition toLowerChar :: "char \<Rightarrow> char" where
  "toLowerChar c =
     (let n = (of_char c :: nat)
      in if 65 \<le> n \<and> n \<le> 90 then char_of (n + 32)
         else if n = 215 then c
         else if 192 \<le> n \<and> n \<le> 222 then char_of (n + 32)
         else c)"

definition toLowerCase :: "string \<Rightarrow> string" where
  "toLowerCase s = map toLowerChar s"

fun includesStr :: "string \<Rightarrow> string \<Rightarrow> bool" where
  "includesStr [] needle = (needle = [])"
| "includesStr (c # cs) needle =
     (if prefix needle (c # cs) then True else includesStr cs needle)"

definition stripWww :: "string \<Rightarrow> string" where
  "stripWww h = (if prefix ''www.'' h then drop 4 h else h)"

text \<open>
  The template literal \<open>`HTTP ${res.statusCode}`\<close> prints the status code, an
  integer, in decimal.
\<close>

fun decimal :: "nat \<Rightarrow> string" where
  "decimal n = (if n < 10 then [''0123456789'' ! n]
                else decimal (n div 10) @ [''0123456789'' ! (n mod 10)])"

text \<open>
  The collaborators of the verifier and of the handlers. Node's \<open>URL\<close> constructor is
  not part of the repository: \<open>parseURL\<close> stands for it, \<open>None\<close> being the thrown
  \<open>TypeError\<close>. \<open>network\<close> is the first event that the request emits: the response
  with its status code, an \<open>error\<close> event with the error's \<open>code\<close> and \<open>message\<close>
  (empty when absent), or \<open>timeout\<close>. \<open>production\<close> is
  \<open>process.env.NODE_ENV === 'production'\<close>, \<open>resourceValid\<close> is the schema validation
  that Mongoose runs before it writes a resource, and \<open>clock\<close> is \<open>new Date()\<close>.
\<close>

record parsed_url =
  protocol :: string
  hostname :: string
  port :: string
  pathname :: string
  search :: string

datatype net_event = Response nat | ErrorEvent string string | TimeoutEvent

record env =
  parseURL :: "string \<Rightarrow> parsed_url option"
  network :: "request \<Rightarrow> net_event"
  production :: bool
  resourceValid :: "resource \<Rightarrow> bool"
  clock :: nat

record verify_result =
  isValid :: bool
  statusCode :: "nat option"
  error :: "string option"

text \<open>
  The argument of \<open>verifyUrl\<close> is any JavaScript value: the function tells strings
  from everything else first.
\<close>

datatype js_arg = JsString string | JsNotString

definition authenticDomains :: "string list" where
  "authenticDomains =
    [''youtube.com'', ''youtu.be'', ''udemy.com'', ''coursera.org'', ''edx.org'',
     ''linkedin.com'', ''pluralsight.com'', ''skillshare.com'', ''khanacademy.org'',
     ''freecodecamp.org'', ''codecademy.com'', ''udacity.com'', ''medium.com'',
     ''github.com'', ''stackoverflow.com'', ''w3schools.com'', ''mdn.io'',
     ''developer.mozilla.org'', ''docs.python.org'', ''nodejs.org'', ''react.dev'',
     ''vuejs.org'', ''angular.io'', ''typescriptlang.org'']"

definition isKnownAuthenticPlatform :: "env \<Rightarrow> string \<Rightarrow> bool" where
  "isKnownAuthenticPlatform e urlString =
    (if urlString = [] then False
     else (case parseURL e urlString of
             None \<Rightarrow> False
           | Some u \<Rightarrow>
               (let h = stripWww (toLowerCase (hostname u))
                in list_ex (\<lambda>domain. includesStr h domain) authenticDomains)))"

definition requestOptions :: "env \<Rightarrow> parsed_url \<Rightarrow> nat \<Rightarrow> request" where
  "requestOptions e parsedUrl timeout =
    \<lparr> req_https = (protocol parsedUrl = ''https:''),
      req_hostname = hostname parsedUrl,
      req_port = (if port parsedUrl = [] then
                    (if protocol parsedUrl = ''https:'' then ''443'' else ''80'')
                  else port parsedUrl),
      req_path = pathname parsedUrl @ search parsedUrl,
      req_method = ''HEAD'',
      req_timeout = timeout,
      req_rejectUnauthorized = production e \<rparr>"

definition classify :: "net_event \<Rightarrow> verify_result" where
  "classify ev =
    (case ev of
       Response status \<Rightarrow>
         (let ok = (status \<ge> 200 \<and> status < 400)
          in \<lparr> isValid = ok, statusCode = Some status,
               error = (if ok then None else Some (''HTTP '' @ decimal status)) \<rparr>)
     | ErrorEvent code msg \<Rightarrow>
         \<lparr> isValid = False, statusCode = None,
           error = Some
             (if code = ''ENOTFOUND'' then ''Domain not found''
              else if code = ''ECONNREFUSED'' then ''Connection refused''
              else if code = ''ETIMEDOUT'' then ''Request timeout''
              else if code = ''ESOCKETTIMEDOUT'' then ''Request timeout''
              else if code = ''CERT_HAS_EXPIRED'' then ''SSL certificate expired''
              else if code = ''UNABLE_TO_VERIFY_LEAF_SIGNATURE''
                then ''SSL certificate verification failed''
              else if msg = [] then ''Unknown error'' else msg) \<rparr>
     | TimeoutEvent \<Rightarrow>
         \<lparr> isValid = False, statusCode = None, error = Some ''Request timeout'' \<rparr>)"

text \<open>
  \<open>verifyUrl\<close> returns the requests it handed to the network (none or one) together
  with the value the promise resolves to.
\<close>

definition normalizeScheme :: "string \<Rightarrow> string" where
  "normalizeScheme s =
    (let urlToCheck = trim s
     in if prefix ''http://'' urlToCheck then urlToCheck
        else if prefix ''https://'' urlToCheck then urlToCheck
        else ''https://'' @ urlToCheck)"

definition verifyUrl :: "env \<Rightarrow> js_arg \<Rightarrow> nat \<Rightarrow> request list \<times> verify_result" where
  "verifyUrl e urlString timeout =
    (case urlString of
       JsNotString \<Rightarrow>
         ([], \<lparr> isValid = False, statusCode = None, error = Some ''Invalid URL string'' \<rparr>)
     | JsString s \<Rightarrow>
         if s = [] then
           ([], \<lparr> isValid = False, statusCode = None, error = Some ''Invalid URL string'' \<rparr>)
         else
           (case parseURL e (normalizeScheme s) of
              None \<Rightarrow>
                ([], \<lparr> isValid = False, statusCode = None,
                       error = Some ''Invalid URL format'' \<rparr>)
            | Some parsedUrl \<Rightarrow>
                (let options = requestOptions e parsedUrl timeout
                 in ([options], classify (network e options)))))"

section \<open>Catalog mutations (routes/admin.js, routes/resources.js)\<close>

text \<open>
  The request bodies after the validators have run, with an optional field absent as
  \<open>None\<close>. \<open>verified\<close> is the value as Mongoose casts it to a Boolean. The response
  keeps the status code, the message and the resource sent back.
\<close>

record create_body =
  c_url :: string
  c_skill :: nat
  c_learningType :: learning_type
  c_verified :: "bool option"
  c_rating :: "number option"
  c_enrollmentCount :: "number option"
  c_isActive :: "bool option"
  c_deletedAt :: "nat option"

record update_body =
  u_url :: "string option"
  u_verified :: "bool option"
  u_skill :: "nat option"
  u_learningType :: "learning_type option"
  u_rating :: "number option"
  u_enrollmentCount :: "number option"
  u_isActive :: "bool option"

record response =
  status :: nat
  message :: string
  data :: "resource option"

definition findById :: "resource list \<Rightarrow> nat \<Rightarrow> resource option" where
  "findById coll i = List.find (\<lambda>r. rid r = i) coll"

definition saveResource :: "world \<Rightarrow> resource \<Rightarrow> world" where
  "saveResource w r =
     w \<lparr> resourcesColl := map (\<lambda>x. if rid x = rid r then r else x) (resourcesColl w) \<rparr>"

definition freshId :: "resource list \<Rightarrow> nat" where
  "freshId coll = Suc (foldr max (map rid coll) 0)"

text \<open>
  The verification decision that the create, update and verify handlers each spell
  out: the allow-list test first, and the probe only when it fails. The result is the
  state with the probe recorded, the decision, and the error of a failed probe.
\<close>

definition decideVerification :: "env \<Rightarrow> world \<Rightarrow> string \<Rightarrow> world \<times> bool \<times> string option" where
  "decideVerification e w u =
    (if isKnownAuthenticPlatform e u then (w, True, None)
     else (case verifyUrl e (JsString u) 10000 of
             (reqs, verificationResult) \<Rightarrow>
               (w \<lparr> netCalls := netCalls w @ reqs \<rparr>,
                isValid verificationResult,
                (if isValid verificationResult then None else error verificationResult))))"

definition errorOrDefault :: "string option \<Rightarrow> string" where
  "errorOrDefault err =
    (case err of None \<Rightarrow> ''URL verification failed''
     | Some m \<Rightarrow> if m = [] then ''URL verification failed'' else m)"

text \<open>
  \<open>new Resource({...req.body, addedBy, verified: verified || req.body.verified || false})\<close>
  with the defaults of the schema.
\<close>

definition newResource :: "world \<Rightarrow> create_body \<Rightarrow> bool \<Rightarrow> resource" where
  "newResource w body verified0 =
    \<lparr> rid = freshId (resourcesColl w),
      url = c_url body,
      learningType = c_learningType body,
      skill = c_skill body,
      verified = (if verified0 then True
                  else (case c_verified body of None \<Rightarrow> False | Some v \<Rightarrow> v)),
      rating = (case c_rating body of None \<Rightarrow> numOfNat 0 | Some x \<Rightarrow> x),
      enrollmentCount =
        Some (case c_enrollmentCount body of None \<Rightarrow> numOfNat 0 | Some x \<Rightarrow> x),
      viewCount = numOfNat 0,
      isActive = (case c_isActive body of None \<Rightarrow> True | Some a \<Rightarrow> a),
      deletedAt = c_deletedAt body \<rparr>"

text \<open>\<open>POST /api/admin/resources\<close>\<close>

definition createResource :: "env \<Rightarrow> world \<Rightarrow> create_body \<Rightarrow> world \<times> response" where
  "createResource e w body =
    (case skillsColl w (c_skill body) of
       None \<Rightarrow> (w, \<lparr> status = 404, message = ''Skill not found'', data = None \<rparr>)
     | Some skillDoc \<Rightarrow>
         if list_ex (\<lambda>r. url r = c_url body \<and> deletedAt r = None) (resourcesColl w) then
           (w, \<lparr> status = 400, message = ''A resource with this URL already exists'',
                 data = None \<rparr>)
         else
           (case decideVerification e w (c_url body) of
              (w1, verified0, err) \<Rightarrow>
                (let w2 = (if verified0 then w1
                           else w1 \<lparr> consoleWarn := consoleWarn w1 @
                                  [''Resource URL verification failed: '' @ c_url body
                                     @ '' - '' @ errorOrDefault err] \<rparr>);
                     resourceDoc = newResource w2 body verified0
                 in if resourceValid e resourceDoc then
                      (let w3 = w2 \<lparr> resourcesColl := resourcesColl w2 @ [resourceDoc] \<rparr>;
                           w4 = fst (addResource w3 skillDoc (rid resourceDoc))
                       in (w4, \<lparr> status = 201, message = ''Resource created successfully'',
                                  data = Some resourceDoc \<rparr>))
                    else
                      (w2, \<lparr> status = 500, message = ''Failed to create resource'',
                             data = None \<rparr>))))"

text \<open>
  \<open>PUT /api/admin/resources/:id\<close>. \<open>verifyChangedUrl\<close> is its first block, which
  rewrites \<open>req.body.verified\<close>; \<open>moveResource\<close> is its second block, the transfer
  between skills, \<open>None\<close> being the 404 for a new skill that does not exist;
  \<open>applyUpdate\<close> is \<open>findByIdAndUpdate(id, req.body)\<close> on the stored document.
\<close>

definition verifyChangedUrl :: "env \<Rightarrow> world \<Rightarrow> resource \<Rightarrow> update_body \<Rightarrow> world \<times> update_body" where
  "verifyChangedUrl e w oldResource body =
    (case u_url body of
       None \<Rightarrow> (w, body)
     | Some newUrl \<Rightarrow>
         if newUrl = [] then (w, body)
         else if newUrl = url oldResource then (w, body)
         else
           (case decideVerification e w newUrl of
              (w1, verified0, err) \<Rightarrow>
                (let w2 = (if verified0 then w1
                           else w1 \<lparr> consoleWarn := consoleWarn w1 @
                                  [''Resource URL verification failed: '' @ newUrl @ '' - ''
                                     @ (case err of None \<Rightarrow> ''undefined'' | Some m \<Rightarrow> m)] \<rparr>);
                     body1 = (if verified0 then body
                              else if u_verified body = None
                                then body \<lparr> u_verified := Some False \<rparr>
                              else body);
                     body2 = (if u_verified body1 = None
                                then body1 \<lparr> u_verified := Some verified0 \<rparr>
                              else body1)
                 in (w2, body2))))"

definition moveResource :: "world \<Rightarrow> resource \<Rightarrow> update_body \<Rightarrow> world option" where
  "moveResource w oldResource body =
    (case u_skill body of
       None \<Rightarrow> Some w
     | Some newSkillId \<Rightarrow>
         if newSkillId = skill oldResource then Some w
         else
           (case skillsColl w newSkillId of
              None \<Rightarrow> None
            | Some newSkill \<Rightarrow>
                (let w1 = (case skillsColl w (skill oldResource) of
                             None \<Rightarrow> w
                           | Some oldSkill \<Rightarrow>
                               fst (removeResource w oldSkill (rid oldResource)))
                 in Some (fst (addResource w1 newSkill (rid oldResource))))))"

definition applyUpdate :: "update_body \<Rightarrow> resource \<Rightarrow> resource" where
  "applyUpdate body r =
    r \<lparr> url := (case u_url body of None \<Rightarrow> url r | Some x \<Rightarrow> x),
        learningType := (case u_learningType body of None \<Rightarrow> learningType r | Some x \<Rightarrow> x),
        skill := (case u_skill body of None \<Rightarrow> skill r | Some x \<Rightarrow> x),
        verified := (case u_verified body of None \<Rightarrow> verified r | Some x \<Rightarrow> x),
        rating := (case u_rating body of None \<Rightarrow> rating r | Some x \<Rightarrow> x),
        enrollmentCount :=
          (case u_enrollmentCount body of None \<Rightarrow> enrollmentCount r | Some x \<Rightarrow> Some x),
        isActive := (case u_isActive body of None \<Rightarrow> isActive r | Some x \<Rightarrow> x) \<rparr>"

definition refreshOwner :: "world \<Rightarrow> nat \<Rightarrow> world" where
  "refreshOwner w skillId =
    (case skillsColl w skillId of
       None \<Rightarrow> w
     | Some skillDoc \<Rightarrow> fst (updateStatistics w skillDoc))"

definition updateResource :: "env \<Rightarrow> world \<Rightarrow> nat \<Rightarrow> update_body \<Rightarrow> world \<times> response" where
  "updateResource e w i body =
    (case findById (resourcesColl w) i of
       None \<Rightarrow> (w, \<lparr> status = 404, message = ''Resource not found'', data = None \<rparr>)
     | Some oldResource \<Rightarrow>
         (case verifyChangedUrl e w oldResource body of
            (w1, body1) \<Rightarrow>
              (case moveResource w1 oldResource body1 of
                 None \<Rightarrow>
                   (w1, \<lparr> status = 404, message = ''New skill not found'', data = None \<rparr>)
               | Some w2 \<Rightarrow>
                   (case findById (resourcesColl w2) i of
                      None \<Rightarrow>
                        (w2, \<lparr> status = 500, message = ''Failed to update resource'',
                               data = None \<rparr>)
                    | Some stored \<Rightarrow>
                        (let resourceDoc = applyUpdate body1 stored
                         in if resourceValid e resourceDoc then
                              (refreshOwner (saveResource w2 resourceDoc) (skill resourceDoc),
                               \<lparr> status = 200, message = ''Resource updated successfully'',
                                 data = Some resourceDoc \<rparr>)
                            else
                              (w2, \<lparr> status = 500, message = ''Failed to update resource'',
                                     data = None \<rparr>))))))"

text \<open>\<open>PATCH /api/admin/resources/:id/verify\<close>\<close>

definition verifyResource :: "env \<Rightarrow> world \<Rightarrow> nat \<Rightarrow> world \<times> response" where
  "verifyResource e w i =
    (case findById (resourcesColl w) i of
       None \<Rightarrow> (w, \<lparr> status = 404, message = ''Resource not found'', data = None \<rparr>)
     | Some resourceDoc \<Rightarrow>
         (case decideVerification e w (url resourceDoc) of
            (w1, verified0, err) \<Rightarrow>
              (let saved = resourceDoc \<lparr> verified := verified0 \<rparr>
               in if resourceValid e saved then
                    (if verified0 then
                       (saveResource w1 saved,
                        \<lparr> status = 200, message = ''Resource verified successfully'',
                          data = Some saved \<rparr>)
                     else
                       (saveResource w1 saved,
                        \<lparr> status = 400,
                          message = ''Resource URL verification failed: '' @ errorOrDefault err,
                          data = Some saved \<rparr>))
                  else
                    (w1, \<lparr> status = 500, message = ''Failed to verify resource'',
                           data = None \<rparr>))))"

text \<open>\<open>PATCH /api/admin/resources/:id/toggle-active\<close>\<close>

definition toggleActive :: "env \<Rightarrow> world \<Rightarrow> nat \<Rightarrow> world \<times> response" where
  "toggleActive e w i =
    (case findById (resourcesColl w) i of
       None \<Rightarrow> (w, \<lparr> status = 404, message = ''Resource not found'', data = None \<rparr>)
     | Some resourceDoc \<Rightarrow>
         (let saved = resourceDoc \<lparr> isActive := \<not> isActive resourceDoc \<rparr>
          in if resourceValid e saved then
               (refreshOwner (saveResource w saved) (skill saved),
                \<lparr> status = 200,
                  message = ''Resource '' @ (if isActive saved then ''activated''
                                             else ''deactivated'') @ '' successfully'',
                  data = None \<rparr>)
             else
               (w, \<lparr> status = 500, message = ''Failed to toggle resource status'',
                     data = None \<rparr>)))"

text \<open>\<open>DELETE /api/admin/resources/:id\<close> (soft delete) and its \<open>restore\<close>\<close>

definition deleteResource :: "env \<Rightarrow> world \<Rightarrow> nat \<Rightarrow> world \<times> response" where
  "deleteResource e w i =
    (case findById (resourcesColl w) i of
       None \<Rightarrow> (w, \<lparr> status = 404, message = ''Resource not found'', data = None \<rparr>)
     | Some resourceDoc \<Rightarrow>
         (let saved = resourceDoc \<lparr> isActive := False, deletedAt := Some (clock e) \<rparr>
          in if resourceValid e saved then
               (let w1 = saveResource w saved;
                    w2 = (case skillsColl w1 (skill saved) of
                            None \<Rightarrow> w1
                          | Some skillDoc \<Rightarrow> fst (removeResource w1 skillDoc (rid saved)))
                in (w2, \<lparr> status = 200, message = ''Resource deleted successfully'',
                           data = None \<rparr>))
             else
               (w, \<lparr> status = 500, message = ''Failed to delete resource'', data = None \<rparr>)))"

definition restoreResource :: "env \<Rightarrow> world \<Rightarrow> nat \<Rightarrow> world \<times> response" where
  "restoreResource e w i =
    (case findById (resourcesColl w) i of
       None \<Rightarrow> (w, \<lparr> status = 404, message = ''Resource not found'', data = None \<rparr>)
     | Some resourceDoc \<Rightarrow>
         (let saved = resourceDoc \<lparr> isActive := True, deletedAt := None \<rparr>
          in if resourceValid e saved then
               (let w1 = saveResource w saved;
                    w2 = (case skillsColl w1 (skill saved) of
                            None \<Rightarrow> w1
                          | Some skillDoc \<Rightarrow> fst (addResource w1 skillDoc (rid saved)))
                in (w2, \<lparr> status = 200, message = ''Resource restored successfully'',
                           data = Some saved \<rparr>))
             else
               (w, \<lparr> status = 500, message = ''Failed to restore resource'', data = None \<rparr>)))"

text \<open>
  The bulk operations run \<open>Resource.updateMany\<close>, which writes without the schema
  validation. \<open>uniq\<close> is \<open>[...new Set(xs)]\<close>: first occurrences, in order.
\<close>

definition bulkVerify :: "world \<Rightarrow> nat list \<Rightarrow> world \<times> response" where
  "bulkVerify w resourceIds =
    (w \<lparr> resourcesColl :=
            map (\<lambda>r. if List.member resourceIds (rid r) then r \<lparr> verified := True \<rparr> else r)
              (resourcesColl w) \<rparr>,
     \<lparr> status = 200, message = ''resources verified successfully'', data = None \<rparr>)"

definition uniq :: "nat list \<Rightarrow> nat list" where
  "uniq xs = rev (remdups (rev xs))"

definition bulkDelete :: "env \<Rightarrow> world \<Rightarrow> nat list \<Rightarrow> world \<times> response" where
  "bulkDelete e w resourceIds =
    (let w1 = w \<lparr> resourcesColl :=
                   map (\<lambda>r. if List.member resourceIds (rid r)
                             then r \<lparr> isActive := False, deletedAt := Some (clock e) \<rparr>
                             else r)
                     (resourcesColl w) \<rparr>;
         skillIds = uniq (map skill (filter (\<lambda>r. List.member resourceIds (rid r))
                                       (resourcesColl w1)))
     in (foldl refreshOwner w1 skillIds,
         \<lparr> status = 200, message = ''resources deleted successfully'', data = None \<rparr>))"

text \<open>\<open>POST /api/resources/:id/view\<close>: the public route that counts a view.\<close>

definition trackView :: "world \<Rightarrow> nat \<Rightarrow> world \<times> response" where
  "trackView w i =
    (case List.find (\<lambda>r. rid r = i \<and> isActive r \<and> verified r) (resourcesColl w) of
       None \<Rightarrow> (w, \<lparr> status = 404, message = ''Resource not found'', data = None \<rparr>)
     | Some resourceDoc \<Rightarrow>
         (saveResource w
            (resourceDoc \<lparr> viewCount := nadd (viewCount resourceDoc) (numOfNat 1) \<rparr>),
          \<lparr> status = 200, message = [], data = None \<rparr>))"

text \<open>One catalog mutation, as a step of the state machine of the catalog.\<close>

datatype operation =
    Create create_body
  | Update nat update_body
  | Verify nat
  | ToggleActive nat
  | Delete nat
  | Restore nat
  | BulkVerify "nat list"
  | BulkDelete "nat list"
  | TrackView nat

fun step :: "env \<Rightarrow> world \<Rightarrow> operation \<Rightarrow> world \<times> response" where
  "step e w (Create body) = createResource e w body"
| "step e w (Update i body) = updateResource e w i body"
| "step e w (Verify i) = verifyResource e w i"
| "step e w (ToggleActive i) = toggleActive e w i"
| "step e w (Delete i) = deleteResource e w i"
| "step e w (Restore i) = restoreResource e w i"
| "step e w (BulkVerify ids) = bulkVerify w ids"
| "step e w (BulkDelete ids) = bulkDelete e w ids"
| "step e w (TrackView i) = trackView w i"

section \<open>Schema validation of a resource (models/Resource.js)\<close>

text \<open>
  The validator of the \<open>url\<close> path tests the string against
  \<^verbatim>\<open>/^(https?:\/\/)?([\da-z\.-]+)\.([a-z\.]{2,6})([\/\w \.-]*)*\/?$/\<close>.
  A concatenation of patterns matches a string when the string can be cut into pieces
  that match the parts in order: \<open>splits\<close> lists the cuts of a string in two, and
  each definition below takes one part of the pattern off the front and hands the
  rest to the next. \<open>urlPattern\<close> is the optional scheme, \<open>matchHost\<close> the
  group \<open>[\da-z\.-]+\<close> and the dot after it, \<open>matchTld\<close> the group
  \<open>[a-z\.]{2,6}\<close>, and \<open>matchTail\<close> the repeated group \<open>[\/\w \.-]*\<close>, the
  optional slash and the end of the string.
\<close>

fun splits :: "string \<Rightarrow> (string \<times> string) list" where
  "splits [] = [([], [])]"
| "splits (c # cs) = ([], c # cs) # map (\<lambda>(a, b). (c # a, b)) (splits cs)"










section \<open>Concrete scenarios\<close>

text \<open>
  A reduced stand-in for Node's \<open>URL\<close> constructor, used only to run the model on
  concrete inputs: it accepts \<open>http://\<close> and \<open>https://\<close> followed by a non-empty
  host without forbidden characters, an optional numeric port, a path and a query,
  and gives the host in lower case. Everything else is a parse failure.
\<close>

definition isUrlDelim :: "char \<Rightarrow> bool" where
  "isUrlDelim c = List.member [CHR ''/'', CHR ''?'', CHR ''#''] c"

definition isQueryDelim :: "char \<Rightarrow> bool" where
  "isQueryDelim c = List.member [CHR ''?'', CHR ''#''] c"

definition forbiddenHostChar :: "char \<Rightarrow> bool" where
  "forbiddenHostChar c =
     List.member [CHR 0x20, CHR ''<'', CHR ''>'', CHR ''@'', CHR ''['', CHR 0x5C, CHR '']'',
                  CHR ''^'', CHR ''|'', CHR ''%''] c"

definition isDigit :: "char \<Rightarrow> bool" where
  "isDigit c = List.member ''0123456789'' c"

definition simpleURL :: "string \<Rightarrow> parsed_url option" where
  "simpleURL s =
    (let proto = (if prefix ''https://'' s then ''https:''
                  else if prefix ''http://'' s then ''http:'' else []);
         rest = drop (length proto + 2) s;
         authority = takeWhile (\<lambda>c. \<not> isUrlDelim c) rest;
         tail = dropWhile (\<lambda>c. \<not> isUrlDelim c) rest;
         host = takeWhile (\<lambda>c. c \<noteq> CHR '':'') authority;
         portPart = drop 1 (dropWhile (\<lambda>c. c \<noteq> CHR '':'') authority);
         path = takeWhile (\<lambda>c. \<not> isQueryDelim c) tail;
         query = takeWhile (\<lambda>c. c \<noteq> CHR ''#'') (dropWhile (\<lambda>c. \<not> isQueryDelim c) tail)
     in if proto = [] then None
        else if host = [] then None
        else if list_ex forbiddenHostChar host then None
        else if list_ex (\<lambda>c. \<not> isDigit c) portPart then None
        else Some \<lparr> protocol = proto, hostname = toLowerCase host, port = portPart,
                    pathname = (if path = [] then ''/'' else path),
                    search = (if query = ''?'' then [] else query) \<rparr>)"

text \<open>
  An environment whose network answers every request with the status \<open>n\<close>, whose
  store accepts every resource, and which is not in production mode.
\<close>

definition alwaysStatus :: "nat \<Rightarrow> request \<Rightarrow> net_event" where
  "alwaysStatus n rq = Response n"

definition acceptAll :: "resource \<Rightarrow> bool" where
  "acceptAll r = True"

definition envStatus :: "nat \<Rightarrow> env" where
  "envStatus n = \<lparr> parseURL = simpleURL, network = alwaysStatus n, production = False,
                   resourceValid = acceptAll, clock = 1000 \<rparr>"


definition zeroStatistics :: statistics where
  "zeroStatistics =
    \<lparr> totalResources = numOfNat 0, freeResources = numOfNat 0, premiumResources = numOfNat 0,
      averageRating = numOfNat 0, totalLearners = numOfNat 0, popularityScore = numOfNat 0 \<rparr>"

definition course :: "nat \<Rightarrow> string \<Rightarrow> nat \<Rightarrow> nat option \<Rightarrow> resource" where
  "course i u stars learners =
    \<lparr> rid = i, url = u, learningType = Free, skill = 3, verified = True,
      rating = numOfNat stars, enrollmentCount = map_option numOfNat learners,
      viewCount = numOfNat 0, isActive = True, deletedAt = None \<rparr>"

text \<open>
  A skill whose only resource has been soft-deleted, with the statistics computed
  while the resource was still listed.
\<close>

definition staleSkill :: skill where
  "staleSkill =
    \<lparr> sid = 3, resources = [],
      statistics = \<lparr> totalResources = numOfNat 1, freeResources = numOfNat 1,
                     premiumResources = numOfNat 0, averageRating = numOfNat 4,
                     totalLearners = numOfNat 300, popularityScore = numOfNat 93 \<rparr> \<rparr>"

definition staleWorld :: world where
  "staleWorld =
    \<lparr> skillsColl = [3 \<mapsto> staleSkill],
      resourcesColl = [(course 7 ''https://www.udemy.com/course/sql'' 4 (Some 300))
                         \<lparr> isActive := False, deletedAt := Some 900 \<rparr>],
      consoleWarn = [], netCalls = [] \<rparr>"

text \<open>A skill with five listed resources: ratings 3, 5, 4, 4, 4 and 1000 learners.\<close>

definition freshSkill :: skill where
  "freshSkill = \<lparr> sid = 3, resources = [], statistics = zeroStatistics \<rparr>"

definition fiveWorld :: world where
  "fiveWorld =
    \<lparr> skillsColl = [3 \<mapsto> freshSkill],
      resourcesColl = [course 11 ''https://a.example.org'' 3 (Some 600),
                       course 12 ''https://b.example.org'' 5 None,
                       course 13 ''https://c.example.org'' 4 (Some 400),
                       course 14 ''https://d.example.org'' 4 None,
                       course 15 ''https://e.example.org'' 4 (Some 0),
                       (course 16 ''https://f.example.org'' 1 (Some 50)) \<lparr> verified := False \<rparr>],
      consoleWarn = [], netCalls = [] \<rparr>"

text \<open>A catalog with one skill and one verified resource, and one with no resource.\<close>

definition oneWorld :: world where
  "oneWorld =
    \<lparr> skillsColl = [3 \<mapsto> freshSkill \<lparr> resources := [11] \<rparr>],
      resourcesColl = [course 11 ''http://old.example.org/course'' 4 (Some 10)],
      consoleWarn = [], netCalls = [] \<rparr>"

definition emptyWorld :: world where
  "emptyWorld =
    \<lparr> skillsColl = [3 \<mapsto> freshSkill], resourcesColl = [], consoleWarn = [],
      netCalls = [] \<rparr>"

definition noChange :: update_body where
  "noChange = \<lparr> u_url = None, u_verified = None, u_skill = None, u_learningType = None,
                u_rating = None, u_enrollmentCount = None, u_isActive = None \<rparr>"

definition createBody :: "string \<Rightarrow> bool option \<Rightarrow> create_body" where
  "createBody u v =
    \<lparr> c_url = u, c_skill = 3, c_learningType = Free, c_verified = v, c_rating = None,
      c_enrollmentCount = None, c_isActive = None, c_deletedAt = None \<rparr>"

section \<open>Properties of the catalog statistics\<close>

lemma floor_rat_numeral:
  "\<lfloor>numeral a / numeral b :: rat\<rfloor> = numeral a div numeral b"
  by (metis floor_divide_of_int_eq of_int_numeral)

lemma ceiling_rat_numeral:
  "\<lceil>numeral a / numeral b :: rat\<rceil> = - (- numeral a div numeral b)"
  unfolding ceiling_def
  by (metis floor_divide_of_int_eq of_int_numeral of_int_minus minus_divide_left)

lemmas num_eval = numOfNat_def roundMagnitude_def log2floor_def roundHalfEven_def signed_def
  bitLength.simps Let_def floor_rat_numeral ceiling_rat_numeral

text \<open>
  The rounding at work: ratings 5, 4 and 4 have the mean 4.333333333333333, and
  with 50 learners the score 117.16666666666666, where exact arithmetic would give
  13/3 and 703/6.
\<close>

lemma double_mean_example:
  "ndiv (foldl nadd (numOfNat 0) [numOfNat 5, numOfNat 4, numOfNat 4]) (numOfNat 3) =
     Number False (Finite (4878899596318037 / 1125899906842624))"
  by (simp add: num_eval)

lemma double_score_example:
  "nadd (nadd (nmul (numOfNat 3) (numOfNat 10))
              (nmul (Number False (Finite (4878899596318037 / 1125899906842624)))
                 (numOfNat 20)))
        (ndiv (numOfNat 50) (numOfNat 100)) =
     Number False (Finite (4122435596408149 / 35184372088832))"
  by (simp add: num_eval)

lemma nmul_commute: "nmul x y = nmul y x"
proof (cases x)
  case NaN
  then show ?thesis
    by (cases y) simp_all
next
  case (Number s m)
  note x = this
  show ?thesis
  proof (cases y)
    case NaN
    then show ?thesis using x by simp
  next
    case (Number t n)
    have sw: "(s \<noteq> t) = (t \<noteq> s)" by blast
    show ?thesis
    proof (cases m)
      case (Finite a)
      note m = this
      show ?thesis
      proof (cases n)
        case (Finite b)
        have "roundMagnitude (a * b) = roundMagnitude (b * a)"
          by (simp only: mult.commute)
        then show ?thesis by (simp only: x Number m Finite nmul.simps sw)
      next
        case Infinite
        then show ?thesis by (simp only: x Number m nmul.simps sw)
      qed
    next
      case Infinite
      note m = this
      show ?thesis
      proof (cases n)
        case (Finite b)
        then show ?thesis by (simp only: x Number m nmul.simps sw)
      next
        case Infinite
        then show ?thesis by (simp only: x Number m nmul.simps sw)
      qed
    qed
  qed
qed

lemma updateStatistics_keeps:
  "resourcesColl (fst (updateStatistics w this)) = resourcesColl w"
  "netCalls (fst (updateStatistics w this)) = netCalls w"
  "consoleWarn (fst (updateStatistics w this)) = consoleWarn w"
  by (simp_all add: updateStatistics_def Let_def)

lemma staleWorld_found: "findActiveVerified staleWorld (sid staleSkill) = []"
  by (simp add: findActiveVerified_def staleWorld_def staleSkill_def course_def)

lemma fiveWorld_found:
  "findActiveVerified fiveWorld (sid freshSkill) =
     [course 11 ''https://a.example.org'' 3 (Some 600),
      course 12 ''https://b.example.org'' 5 None,
      course 13 ''https://c.example.org'' 4 (Some 400),
      course 14 ''https://d.example.org'' 4 None,
      course 15 ''https://e.example.org'' 4 (Some 0)]"
  by (simp add: findActiveVerified_def fiveWorld_def freshSkill_def course_def)

lemma updateStatistics_nonempty:
  assumes "findActiveVerified w (sid this) \<noteq> []"
  shows "statistics (snd (updateStatistics w this)) =
    \<lparr> totalResources = numOfNat (length (findActiveVerified w (sid this))),
      freeResources =
        numOfNat (length (filter (\<lambda>r. learningType r = Free)
                            (findActiveVerified w (sid this)))),
      premiumResources =
        numOfNat (length (filter (\<lambda>r. learningType r = Premium)
                            (findActiveVerified w (sid this)))),
      averageRating =
        ndiv (foldl nadd (numOfNat 0) (map rating (findActiveVerified w (sid this))))
          (numOfNat (length (findActiveVerified w (sid this)))),
      totalLearners =
        foldl nadd (numOfNat 0)
          (map (\<lambda>r. orElse (enrollmentCount r) (numOfNat 0))
             (findActiveVerified w (sid this))),
      popularityScore =
        nadd (nadd (nmul (numOfNat (length (findActiveVerified w (sid this)))) (numOfNat 10))
                   (nmul (ndiv (foldl nadd (numOfNat 0)
                                  (map rating (findActiveVerified w (sid this))))
                            (numOfNat (length (findActiveVerified w (sid this)))))
                      (numOfNat 20)))
             (ndiv (foldl nadd (numOfNat 0)
                      (map (\<lambda>r. orElse (enrollmentCount r) (numOfNat 0))
                         (findActiveVerified w (sid this))))
                (numOfNat 100)) \<rparr>"
  using assms by (simp add: updateStatistics_def Let_def foldl_map)

lemma five_length: "length (findActiveVerified fiveWorld (sid freshSkill)) = 5"
  by (simp add: fiveWorld_found)

lemma five_free:
  "length (filter (\<lambda>r. learningType r = Free) (findActiveVerified fiveWorld (sid freshSkill))) = 5"
  by (simp add: fiveWorld_found course_def)

lemma five_premium:
  "length (filter (\<lambda>r. learningType r = Premium)
             (findActiveVerified fiveWorld (sid freshSkill))) = 0"
  by (simp add: fiveWorld_found course_def)

lemma five_ratings:
  "map rating (findActiveVerified fiveWorld (sid freshSkill)) =
     [numOfNat 3, numOfNat 5, numOfNat 4, numOfNat 4, numOfNat 4]"
  by (simp add: fiveWorld_found course_def)

lemma orElse_numOfNat:
  "orElse (Some (numOfNat 600)) (numOfNat 0) = numOfNat 600"
  "orElse (Some (numOfNat 400)) (numOfNat 0) = numOfNat 400"
  "orElse (Some (numOfNat 0)) (numOfNat 0) = numOfNat 0"
  by (simp_all add: num_eval)

lemma five_learners:
  "map (\<lambda>r. orElse (enrollmentCount r) (numOfNat 0))
     (findActiveVerified fiveWorld (sid freshSkill)) =
     [numOfNat 600, numOfNat 0, numOfNat 400, numOfNat 0, numOfNat 0]"
  by (simp add: fiveWorld_found course_def orElse_numOfNat)

lemma five_arithmetic:
  "foldl nadd (numOfNat 0) [numOfNat 3, numOfNat 5, numOfNat 4, numOfNat 4, numOfNat 4] =
     numOfNat 20"
  "ndiv (numOfNat 20) (numOfNat 5) = numOfNat 4"
  "foldl nadd (numOfNat 0) [numOfNat 600, numOfNat 0, numOfNat 400, numOfNat 0, numOfNat 0] =
     numOfNat 1000"
  "nadd (nadd (nmul (numOfNat 5) (numOfNat 10)) (nmul (numOfNat 4) (numOfNat 20)))
        (ndiv (numOfNat 1000) (numOfNat 100)) = numOfNat 140"
  "nadd (nadd (nmul (numOfNat 10) (numOfNat 5)) (nmul (numOfNat 20) (numOfNat 4)))
        (ndiv (numOfNat 1000) (numOfNat 100)) = numOfNat 140"
  by (simp_all add: num_eval)

lemma fiveWorld_statistics:
  "statistics (snd (updateStatistics fiveWorld freshSkill)) =
     \<lparr> totalResources = numOfNat 5, freeResources = numOfNat 5, premiumResources = numOfNat 0,
       averageRating = numOfNat 4, totalLearners = numOfNat 1000,
       popularityScore = numOfNat 140 \<rparr>"
proof -
  have h: "findActiveVerified fiveWorld (sid freshSkill) \<noteq> []"
    by (simp add: fiveWorld_found)
  show ?thesis
    by (simp only: updateStatistics_nonempty [OF h] five_length five_free five_premium
        five_ratings five_learners five_arithmetic)
qed

text \<open>
  C1. The claim: when no active, verified, undeleted resource references the skill,
  the refresh stores \<open>totalResources = 0\<close> and \<open>averageRating = 0\<close>, whatever the
  statistics held before. The code resets the three counters, but it assigns
  \<open>averageRating\<close>, \<open>totalLearners\<close> and \<open>popularityScore\<close> only inside
  \<open>if (resources.length > 0)\<close>: on the empty set they keep their old values. For the
  skill whose only resource was soft-deleted, the refresh stores \<open>totalResources = 0\<close>
  next to the stale \<open>averageRating = 4\<close> and \<open>popularityScore = 93\<close>.
\<close>

theorem updateStatistics_empty_set_keeps_stale_average:
  "skillsColl staleWorld 3 = Some staleSkill
   \<and> findActiveVerified staleWorld (sid staleSkill) = []
   \<and> skillsColl (fst (updateStatistics staleWorld staleSkill)) 3
       = Some (snd (updateStatistics staleWorld staleSkill))
   \<and> totalResources (statistics (snd (updateStatistics staleWorld staleSkill))) = numOfNat 0
   \<and> averageRating (statistics (snd (updateStatistics staleWorld staleSkill))) = numOfNat 4
   \<and> popularityScore (statistics (snd (updateStatistics staleWorld staleSkill))) = numOfNat 93"
  by (simp add: updateStatistics_def staleWorld_found Let_def)
     (simp add: staleWorld_def staleSkill_def)

text \<open>
  C5. When the fetched set of active, verified resources is not empty, the refresh
  stores \<open>totalResources\<close> = the size of the set, \<open>averageRating\<close> = the mean of the
  ratings, \<open>totalLearners\<close> = the sum of the enrollment counters (0 where absent) and
  \<open>popularityScore = 10 * totalResources + 20 * averageRating + totalLearners / 100\<close>.
  All of it is arithmetic of numbers: a sum adds the terms from left to right,
  starting from 0 and rounding each partial sum, the mean is that sum divided by the
  count, and the score is the displayed expression with every operation rounded.
  The witness is the regression case of the specification: five resources, mean
  rating 4, 1000 learners, score 140.
\<close>

theorem updateStatistics_popularityScore:
  assumes "findActiveVerified w (sid this) \<noteq> []"
      and "updateStatistics w this = (w', saved)"
  shows "skillsColl w' (sid this) = Some saved
       \<and> totalResources (statistics saved) =
           numOfNat (length (findActiveVerified w (sid this)))
       \<and> averageRating (statistics saved) =
           ndiv (foldl nadd (numOfNat 0) (map rating (findActiveVerified w (sid this))))
             (numOfNat (length (findActiveVerified w (sid this))))
       \<and> totalLearners (statistics saved) =
           foldl nadd (numOfNat 0)
             (map (\<lambda>r. orElse (enrollmentCount r) (numOfNat 0))
                (findActiveVerified w (sid this)))
       \<and> popularityScore (statistics saved) =
           nadd (nadd (nmul (numOfNat 10) (totalResources (statistics saved)))
                      (nmul (numOfNat 20) (averageRating (statistics saved))))
                (ndiv (totalLearners (statistics saved)) (numOfNat 100))"
proof -
  have code_order:
    "skillsColl w' (sid this) = Some saved
     \<and> totalResources (statistics saved) =
         numOfNat (length (findActiveVerified w (sid this)))
     \<and> averageRating (statistics saved) =
         ndiv (foldl nadd (numOfNat 0) (map rating (findActiveVerified w (sid this))))
           (numOfNat (length (findActiveVerified w (sid this))))
     \<and> totalLearners (statistics saved) =
         foldl nadd (numOfNat 0)
           (map (\<lambda>r. orElse (enrollmentCount r) (numOfNat 0))
              (findActiveVerified w (sid this)))
     \<and> popularityScore (statistics saved) =
         nadd (nadd (nmul (totalResources (statistics saved)) (numOfNat 10))
                    (nmul (averageRating (statistics saved)) (numOfNat 20)))
              (ndiv (totalLearners (statistics saved)) (numOfNat 100))"
    using assms
    by (auto simp add: updateStatistics_def Let_def foldl_map)
  have c10: "nmul (numOfNat 10) (totalResources (statistics saved)) =
               nmul (totalResources (statistics saved)) (numOfNat 10)"
    by (rule nmul_commute)
  have c20: "nmul (numOfNat 20) (averageRating (statistics saved)) =
               nmul (averageRating (statistics saved)) (numOfNat 20)"
    by (rule nmul_commute)
  show ?thesis
    unfolding c10 c20 by (rule code_order)
qed

theorem updateStatistics_popularityScore_witness:
  "findActiveVerified fiveWorld (sid freshSkill) \<noteq> []
   \<and> skillsColl (fst (updateStatistics fiveWorld freshSkill)) (sid freshSkill) =
       Some (snd (updateStatistics fiveWorld freshSkill))
   \<and> totalResources (statistics (snd (updateStatistics fiveWorld freshSkill))) = numOfNat 5
   \<and> averageRating (statistics (snd (updateStatistics fiveWorld freshSkill))) = numOfNat 4
   \<and> totalLearners (statistics (snd (updateStatistics fiveWorld freshSkill))) = numOfNat 1000
   \<and> popularityScore (statistics (snd (updateStatistics fiveWorld freshSkill))) = numOfNat 140
   \<and> nadd (nadd (nmul (numOfNat 10) (numOfNat 5)) (nmul (numOfNat 20) (numOfNat 4)))
           (ndiv (numOfNat 1000) (numOfNat 100)) = numOfNat 140"
proof -
  have h: "findActiveVerified fiveWorld (sid freshSkill) \<noteq> []"
    by (simp add: fiveWorld_found)
  have p: "updateStatistics fiveWorld freshSkill =
             (fst (updateStatistics fiveWorld freshSkill),
              snd (updateStatistics fiveWorld freshSkill))"
    by simp
  have stored: "skillsColl (fst (updateStatistics fiveWorld freshSkill)) (sid freshSkill) =
                  Some (snd (updateStatistics fiveWorld freshSkill))"
    using updateStatistics_popularityScore [OF h p] by (rule conjunct1)
  have vals:
    "totalResources (statistics (snd (updateStatistics fiveWorld freshSkill))) = numOfNat 5
     \<and> averageRating (statistics (snd (updateStatistics fiveWorld freshSkill))) = numOfNat 4
     \<and> totalLearners (statistics (snd (updateStatistics fiveWorld freshSkill))) = numOfNat 1000
     \<and> popularityScore (statistics (snd (updateStatistics fiveWorld freshSkill))) =
         numOfNat 140"
    by (simp add: fiveWorld_statistics)
  from h stored vals five_arithmetic(5) show ?thesis by blast
qed

text \<open>
  C10. The refresh is idempotent: after one run the store holds the document that the
  run returned, and a second run on that state and that document changes neither.
  The proof uses no law of arithmetic, only that the second run reads the same
  resources and recomputes the same terms.
\<close>

theorem updateStatistics_idempotent:
  assumes "updateStatistics w this = (w1, s1)"
  shows "skillsColl w1 (sid this) = Some s1 \<and> updateStatistics w1 s1 = (w1, s1)"
proof -
  have c: "resourcesColl w1 = resourcesColl w"
    using assms updateStatistics_keeps(1) [of w this] by simp
  have i: "sid s1 = sid this"
    using assms by (auto simp add: updateStatistics_def Let_def)
  have f: "findActiveVerified w1 (sid s1) = findActiveVerified w (sid this)"
    using c i by (simp add: findActiveVerified_def)
  have "updateStatistics w1 s1 = (w1, s1)"
    using assms f i unfolding updateStatistics_def Let_def
    by (auto simp add: fun_upd_idem_iff)
  moreover have "skillsColl w1 (sid this) = Some s1"
    using assms by (auto simp add: updateStatistics_def Let_def)
  ultimately show ?thesis by simp
qed

theorem updateStatistics_idempotent_witness:
  "updateStatistics (fst (updateStatistics fiveWorld freshSkill))
       (snd (updateStatistics fiveWorld freshSkill))
     = updateStatistics fiveWorld freshSkill
   \<and> popularityScore (statistics (snd (updateStatistics fiveWorld freshSkill))) = numOfNat 140
   \<and> updateStatistics (fst (updateStatistics staleWorld staleSkill))
       (snd (updateStatistics staleWorld staleSkill))
     = updateStatistics staleWorld staleSkill"
proof -
  have p: "updateStatistics fiveWorld freshSkill =
             (fst (updateStatistics fiveWorld freshSkill),
              snd (updateStatistics fiveWorld freshSkill))"
    by simp
  have q: "updateStatistics staleWorld staleSkill =
             (fst (updateStatistics staleWorld staleSkill),
              snd (updateStatistics staleWorld staleSkill))"
    by simp
  have s: "popularityScore (statistics (snd (updateStatistics fiveWorld freshSkill))) =
             numOfNat 140"
    by (simp add: fiveWorld_statistics)
  show ?thesis
    using updateStatistics_idempotent [OF p] updateStatistics_idempotent [OF q] s
    by simp
qed

section \<open>Properties of the verifier\<close>

lemma includesStr_sublist: "includesStr h n = sublist n h"
  by (induction h) (auto simp add: sublist_Cons_right)

lemma classify_error_iff: "isValid (classify ev) = (error (classify ev) = None)"
  by (cases ev) (simp_all add: classify_def Let_def)

lemmas url_eval = simpleURL_def isUrlDelim_def isQueryDelim_def forbiddenHostChar_def
  isDigit_def toLowerCase_def toLowerChar_def normalizeScheme_def trim_def isWhiteSpace_def
  stripWww_def authenticDomains_def Let_def

lemma simpleURL_youtube:
  "simpleURL ''https://www.youtube.com/watch?v=x'' =
     Some \<lparr> protocol = ''https:'', hostname = ''www.youtube.com'', port = [],
            pathname = ''/watch'', search = ''?v=x'' \<rparr>"
  by (simp add: url_eval)

lemma simpleURL_unknown:
  "simpleURL ''http://not-a-real-domain-xyz123.test'' =
     Some \<lparr> protocol = ''http:'', hostname = ''not-a-real-domain-xyz123.test'', port = [],
            pathname = ''/'', search = [] \<rparr>"
  by (simp add: url_eval)

lemma simpleURL_not_a_url: "simpleURL ''not a url'' = None"
  by (simp add: simpleURL_def Let_def)

lemma normalize_example: "normalizeScheme ''example.org/x'' = ''https://example.org/x''"
  by (simp add: normalizeScheme_def trim_def isWhiteSpace_def)

lemma simpleURL_example:
  "simpleURL ''https://example.org/x'' =
     Some \<lparr> protocol = ''https:'', hostname = ''example.org'', port = [],
            pathname = ''/x'', search = [] \<rparr>"
  by (simp add: url_eval)

lemma normalize_not_a_url: "normalizeScheme ''not a url'' = ''https://not a url''"
  by (simp add: normalizeScheme_def trim_def isWhiteSpace_def)

lemma simpleURL_https_not_a_url: "simpleURL ''https://not a url'' = None"
  by (simp add: url_eval)

text \<open>
  C7, as amended. For every non-empty string whose trimmed and scheme-normalized form
  does not parse, \<open>verifyUrl\<close> resolves to \<open>{isValid: false, error: "Invalid URL format"}\<close>
  and hands nothing to the network. The empty string and every value that is not a
  string are answered by the guard before it, with \<open>"Invalid URL string"\<close>, again
  without a request. For every argument \<open>verifyUrl\<close> resolves to a result that is
  valid exactly when it carries no error, after at most one request.
  The claim as stated fails at the empty string: its normalized form \<open>https://\<close> does
  not parse, and the error is \<open>"Invalid URL string"\<close>.
\<close>

theorem verifyUrl_malformed_input:
  assumes "s \<noteq> []" and "parseURL e (normalizeScheme s) = None"
  shows "verifyUrl e (JsString s) t =
           ([], \<lparr> isValid = False, statusCode = None, error = Some ''Invalid URL format'' \<rparr>)
       \<and> verifyUrl e (JsString []) t =
           ([], \<lparr> isValid = False, statusCode = None, error = Some ''Invalid URL string'' \<rparr>)
       \<and> verifyUrl e JsNotString t =
           ([], \<lparr> isValid = False, statusCode = None, error = Some ''Invalid URL string'' \<rparr>)
       \<and> length (fst (verifyUrl e a t)) \<le> 1
       \<and> isValid (snd (verifyUrl e a t)) = (error (snd (verifyUrl e a t)) = None)"
proof -
  have "length (fst (verifyUrl e a t)) \<le> 1"
    by (cases a) (simp_all add: verifyUrl_def Let_def split: option.splits)
  moreover have "isValid (snd (verifyUrl e a t)) = (error (snd (verifyUrl e a t)) = None)"
    by (cases a) (simp_all add: verifyUrl_def Let_def classify_error_iff split: option.splits)
  ultimately show ?thesis
    using assms by (simp add: verifyUrl_def)
qed

theorem verifyUrl_malformed_input_witness:
  "''not a url'' \<noteq> []
   \<and> parseURL (envStatus 200) (normalizeScheme ''not a url'') = None
   \<and> verifyUrl (envStatus 200) (JsString ''not a url'') 10000 =
       ([], \<lparr> isValid = False, statusCode = None, error = Some ''Invalid URL format'' \<rparr>)"
proof -
  have n: "''not a url'' \<noteq> []" by simp
  have p: "parseURL (envStatus 200) (normalizeScheme ''not a url'') = None"
    by (simp add: envStatus_def normalize_not_a_url simpleURL_https_not_a_url)
  show ?thesis
    using n p verifyUrl_malformed_input [OF n p, of 10000 JsNotString] by simp
qed

theorem verifyUrl_empty_string_counterexample:
  "parseURL (envStatus 200) (normalizeScheme []) = None
   \<and> verifyUrl (envStatus 200) (JsString []) 10000 =
       ([], \<lparr> isValid = False, statusCode = None, error = Some ''Invalid URL string'' \<rparr>)
   \<and> error (snd (verifyUrl (envStatus 200) (JsString []) 10000)) \<noteq> Some ''Invalid URL format''"
  by (simp add: verifyUrl_def envStatus_def normalizeScheme_def trim_def simpleURL_def Let_def)

text \<open>
  C8. When the probe receives a response, the result is valid exactly when
  \<open>200 \<le> status < 400\<close>; it carries the status code, and for any other status the
  error \<open>"HTTP <status>"\<close>. The request sent is the one built from the parsed URL.
  The witness runs the status codes 200 and 404.
\<close>

theorem verifyUrl_status_classification:
  assumes "s \<noteq> []"
      and "parseURL e (normalizeScheme s) = Some u"
      and "network e (requestOptions e u t) = Response code"
  shows "verifyUrl e (JsString s) t =
           ([requestOptions e u t],
            \<lparr> isValid = (200 \<le> code \<and> code < 400),
              statusCode = Some code,
              error = (if 200 \<le> code \<and> code < 400 then None
                       else Some (''HTTP '' @ decimal code)) \<rparr>)"
  using assms by (simp add: verifyUrl_def classify_def Let_def)

theorem verifyUrl_status_classification_witness:
  "snd (verifyUrl (envStatus 200) (JsString ''example.org/x'') 10000) =
     \<lparr> isValid = True, statusCode = Some 200, error = None \<rparr>
   \<and> snd (verifyUrl (envStatus 404) (JsString ''example.org/x'') 10000) =
     \<lparr> isValid = False, statusCode = Some 404, error = Some ''HTTP 404'' \<rparr>
   \<and> fst (verifyUrl (envStatus 404) (JsString ''example.org/x'') 10000) =
     [\<lparr> req_https = True, req_hostname = ''example.org'', req_port = ''443'',
        req_path = ''/x'', req_method = ''HEAD'', req_timeout = 10000,
        req_rejectUnauthorized = False \<rparr>]"
proof -
  have n: "''example.org/x'' \<noteq> []" by simp
  have p: "parseURL (envStatus k) (normalizeScheme ''example.org/x'') =
             Some \<lparr> protocol = ''https:'', hostname = ''example.org'', port = [],
                    pathname = ''/x'', search = [] \<rparr>" for k
    by (simp add: envStatus_def normalize_example simpleURL_example)
  have r: "network (envStatus k) rq = Response k" for k rq
    by (simp add: envStatus_def alwaysStatus_def)
  show ?thesis
    using verifyUrl_status_classification [OF n p r, of 200 10000]
          verifyUrl_status_classification [OF n p r, of 404 10000]
    by (simp add: requestOptions_def envStatus_def)
qed

text \<open>
  C9. \<open>isKnownAuthenticPlatform\<close> answers \<open>false\<close> whenever the URL does not parse
  (and for the empty string), and otherwise whether the lower-cased host name, with a
  leading \<open>www.\<close> removed, has an entry of the allow-list as a contiguous substring.
  With a parser that reads the host names of the three inputs of the specification as
  Node's does, the answers are \<open>true\<close>, \<open>false\<close> and \<open>false\<close>.
\<close>

theorem isKnownAuthenticPlatform_spec:
  assumes "parseURL e ''https://www.youtube.com/watch?v=x'' = Some u1"
      and "hostname u1 = ''www.youtube.com''"
      and "parseURL e ''http://not-a-real-domain-xyz123.test'' = Some u2"
      and "hostname u2 = ''not-a-real-domain-xyz123.test''"
      and "parseURL e ''not a url'' = None"
  shows "isKnownAuthenticPlatform e ''https://www.youtube.com/watch?v=x''
       \<and> \<not> isKnownAuthenticPlatform e ''http://not-a-real-domain-xyz123.test''
       \<and> \<not> isKnownAuthenticPlatform e ''not a url''
       \<and> (parseURL e s = None \<longrightarrow> \<not> isKnownAuthenticPlatform e s)
       \<and> (\<forall>u. parseURL e s = Some u \<longrightarrow>
             isKnownAuthenticPlatform e s =
               (s \<noteq> [] \<and> (\<exists>d \<in> set authenticDomains.
                              sublist d (stripWww (toLowerCase (hostname u))))))"
proof -
  have a: "isKnownAuthenticPlatform e ''https://www.youtube.com/watch?v=x''"
    using assms(1,2)
    by (simp add: isKnownAuthenticPlatform_def stripWww_def toLowerCase_def toLowerChar_def
        authenticDomains_def)
  have b: "\<not> isKnownAuthenticPlatform e ''http://not-a-real-domain-xyz123.test''"
    using assms(3,4)
    by (simp add: isKnownAuthenticPlatform_def stripWww_def toLowerCase_def toLowerChar_def
        authenticDomains_def)
  have c: "\<not> isKnownAuthenticPlatform e ''not a url''"
    using assms(5) by (simp add: isKnownAuthenticPlatform_def)
  have d: "parseURL e s = None \<longrightarrow> \<not> isKnownAuthenticPlatform e s"
    by (simp add: isKnownAuthenticPlatform_def)
  have f: "\<forall>u. parseURL e s = Some u \<longrightarrow>
             isKnownAuthenticPlatform e s =
               (s \<noteq> [] \<and> (\<exists>d \<in> set authenticDomains.
                              sublist d (stripWww (toLowerCase (hostname u)))))"
    by (simp add: isKnownAuthenticPlatform_def Let_def list_ex_iff includesStr_sublist)
  from a b c d f show ?thesis by blast
qed

theorem isKnownAuthenticPlatform_spec_witness:
  "parseURL (envStatus 200) ''not a url'' = None
   \<and> isKnownAuthenticPlatform (envStatus 200) ''https://www.youtube.com/watch?v=x''
   \<and> \<not> isKnownAuthenticPlatform (envStatus 200) ''http://not-a-real-domain-xyz123.test''
   \<and> \<not> isKnownAuthenticPlatform (envStatus 200) ''not a url''"
proof -
  have h1: "parseURL (envStatus 200) ''https://www.youtube.com/watch?v=x'' =
              Some \<lparr> protocol = ''https:'', hostname = ''www.youtube.com'', port = [],
                     pathname = ''/watch'', search = ''?v=x'' \<rparr>"
    by (simp add: envStatus_def simpleURL_youtube)
  have h2: "hostname \<lparr> protocol = ''https:'', hostname = ''www.youtube.com'', port = [],
                       pathname = ''/watch'', search = ''?v=x'' \<rparr> = ''www.youtube.com''"
    by simp
  have h3: "parseURL (envStatus 200) ''http://not-a-real-domain-xyz123.test'' =
              Some \<lparr> protocol = ''http:'', hostname = ''not-a-real-domain-xyz123.test'',
                     port = [], pathname = ''/'', search = [] \<rparr>"
    by (simp add: envStatus_def simpleURL_unknown)
  have h4: "hostname \<lparr> protocol = ''http:'', hostname = ''not-a-real-domain-xyz123.test'',
                       port = [], pathname = ''/'', search = [] \<rparr>
              = ''not-a-real-domain-xyz123.test''"
    by simp
  have h5: "parseURL (envStatus 200) ''not a url'' = None"
    by (simp add: envStatus_def simpleURL_not_a_url)
  show ?thesis
    using h5 isKnownAuthenticPlatform_spec [OF h1 h2 h3 h4 h5, of "[]"] by simp
qed

section \<open>Properties of the catalog mutations\<close>

lemma addResource_keeps:
  "resourcesColl (fst (addResource w this x)) = resourcesColl w"
  "netCalls (fst (addResource w this x)) = netCalls w"
  "consoleWarn (fst (addResource w this x)) = consoleWarn w"
  by (simp_all add: addResource_def Let_def updateStatistics_keeps)

lemma removeResource_keeps:
  "resourcesColl (fst (removeResource w this x)) = resourcesColl w"
  "netCalls (fst (removeResource w this x)) = netCalls w"
  "consoleWarn (fst (removeResource w this x)) = consoleWarn w"
  by (simp_all add: removeResource_def Let_def updateStatistics_keeps)

lemma refreshOwner_keeps:
  "resourcesColl (refreshOwner w k) = resourcesColl w"
  "netCalls (refreshOwner w k) = netCalls w"
  "consoleWarn (refreshOwner w k) = consoleWarn w"
  by (simp_all add: refreshOwner_def updateStatistics_keeps split: option.splits)

lemma foldl_refreshOwner_keeps:
  "resourcesColl (foldl refreshOwner w ks) = resourcesColl w"
  "netCalls (foldl refreshOwner w ks) = netCalls w"
  by (induction ks arbitrary: w) (simp_all add: refreshOwner_keeps)

lemma findById_rid: "findById coll i = Some r \<Longrightarrow> rid r = i"
  by (auto simp add: findById_def find_Some_iff)

lemma findById_map:
  "(\<And>x. rid (f x) = rid x) \<Longrightarrow> findById (map f coll) i = map_option f (findById coll i)"
  by (induction coll) (simp_all add: findById_def)

lemma findById_append:
  "findById coll i = Some r \<Longrightarrow> findById (coll @ ys) i = Some r"
  by (induction coll) (auto simp add: findById_def split: if_splits)

lemma findById_saveResource:
  "findById (resourcesColl (saveResource w r)) i =
     map_option (\<lambda>x. if rid x = rid r then r else x) (findById (resourcesColl w) i)"
  by (simp add: saveResource_def findById_map)

lemma findById_save_loaded:
  assumes "findById (resourcesColl w) i = Some r" and "findById (resourcesColl w) j = Some d"
      and "rid d' = rid d"
  shows "findById (resourcesColl (saveResource w d')) i = Some (if j = i then d' else r)"
  using assms findById_rid [OF assms(1)] findById_rid [OF assms(2)]
  by (auto simp add: findById_saveResource)

lemma decideVerification_keeps:
  "decideVerification e w u = (w1, v, err) \<Longrightarrow> resourcesColl w1 = resourcesColl w"
  by (auto simp add: decideVerification_def split: if_splits prod.splits)

lemma decideVerification_false:
  "decideVerification e w u = (w1, False, err) \<Longrightarrow>
     \<not> isKnownAuthenticPlatform e u \<and> \<not> isValid (snd (verifyUrl e (JsString u) 10000))"
  by (auto simp add: decideVerification_def split: if_splits prod.splits)

lemma verifyChangedUrl_keeps:
  "verifyChangedUrl e w old body = (w1, body1) \<Longrightarrow> resourcesColl w1 = resourcesColl w"
  by (auto simp add: verifyChangedUrl_def Let_def dest: decideVerification_keeps
      split: option.splits if_splits prod.splits)

lemma verifyChangedUrl_false:
  assumes "verifyChangedUrl e w old body = (w1, body1)" and "u_verified body1 = Some False"
  shows "u_verified body = Some False
       \<or> (u_verified body = None
          \<and> (\<exists>newUrl. u_url body = Some newUrl \<and> newUrl \<noteq> url old
                \<and> \<not> isKnownAuthenticPlatform e newUrl
                \<and> \<not> isValid (snd (verifyUrl e (JsString newUrl) 10000))))"
  using assms
  by (auto simp add: verifyChangedUrl_def Let_def dest: decideVerification_false
      split: option.splits if_splits prod.splits)

lemma moveResource_keeps:
  "moveResource w old body = Some w2 \<Longrightarrow> resourcesColl w2 = resourcesColl w"
  by (auto simp add: moveResource_def Let_def addResource_keeps removeResource_keeps
      split: option.splits if_splits)

lemma create_keeps_verified:
  assumes "findById (resourcesColl w) i = Some r" and "createResource e w body = (w', resp)"
  shows "findById (resourcesColl w') i = Some r"
  using assms
  by (auto simp add: createResource_def Let_def addResource_keeps findById_append
      dest: decideVerification_keeps split: option.splits if_splits prod.splits)

lemma toggle_keeps_verified:
  assumes "findById (resourcesColl w) i = Some r" and "toggleActive e w j = (w', resp)"
      and "findById (resourcesColl w') i = Some r'"
  shows "verified r' = verified r"
  using assms
  by (auto simp add: toggleActive_def Let_def refreshOwner_keeps findById_save_loaded
      split: option.splits if_splits)

lemma delete_keeps_verified:
  assumes "findById (resourcesColl w) i = Some r" and "deleteResource e w j = (w', resp)"
      and "findById (resourcesColl w') i = Some r'"
  shows "verified r' = verified r"
  using assms
  by (auto simp add: deleteResource_def Let_def removeResource_keeps findById_save_loaded
      split: option.splits if_splits)

lemma restore_keeps_verified:
  assumes "findById (resourcesColl w) i = Some r" and "restoreResource e w j = (w', resp)"
      and "findById (resourcesColl w') i = Some r'"
  shows "verified r' = verified r"
  using assms
  by (auto simp add: restoreResource_def Let_def addResource_keeps findById_save_loaded
      split: option.splits if_splits)

lemma bulkVerify_keeps_verified:
  assumes "findById (resourcesColl w) i = Some r" and "verified r"
      and "bulkVerify w ids = (w', resp)"
      and "findById (resourcesColl w') i = Some r'"
  shows "verified r'"
  using assms
  by (auto simp add: bulkVerify_def findById_map split: if_splits)

lemma bulkDelete_keeps_verified:
  assumes "findById (resourcesColl w) i = Some r" and "bulkDelete e w ids = (w', resp)"
      and "findById (resourcesColl w') i = Some r'"
  shows "verified r' = verified r"
  using assms
  by (auto simp add: bulkDelete_def Let_def foldl_refreshOwner_keeps findById_map
      split: if_splits)

lemma trackView_keeps_verified:
  assumes "findById (resourcesColl w) i = Some r" and "verified r"
      and "trackView w j = (w', resp)"
      and "findById (resourcesColl w') i = Some r'"
  shows "verified r'"
  using assms
  by (auto simp add: trackView_def findById_saveResource find_Some_iff
      split: option.splits if_splits)

lemma verifyResource_demotion:
  assumes "findById (resourcesColl w) i = Some r" and "verified r"
      and "verifyResource e w j = (w', resp)"
      and "findById (resourcesColl w') i = Some r'" and "\<not> verified r'"
  shows "j = i \<and> \<not> isKnownAuthenticPlatform e (url r)
       \<and> \<not> isValid (snd (verifyUrl e (JsString (url r)) 10000))"
proof (cases "findById (resourcesColl w) j")
  case None
  with assms show ?thesis by (simp add: verifyResource_def)
next
  case (Some d)
  obtain w1 v err where dv: "decideVerification e w (url d) = (w1, v, err)"
    by (cases "decideVerification e w (url d)") auto
  have k: "resourcesColl w1 = resourcesColl w"
    using dv by (rule decideVerification_keeps)
  have ridd: "rid d = j" using Some by (rule findById_rid)
  have ridr: "rid r = i" using assms(1) by (rule findById_rid)
  show ?thesis
  proof (cases "j = i")
    case True
    then have "d = r" using Some assms(1) by simp
    moreover have "\<not> v"
      using assms Some dv k ridd ridr True
      by (auto simp add: verifyResource_def Let_def findById_save_loaded split: if_splits)
    ultimately have "decideVerification e w (url r) = (w1, False, err)"
      using dv by simp
    then show ?thesis using True by (simp add: decideVerification_false)
  next
    case False
    then have "r' = r"
      using assms Some dv k ridd ridr
      by (auto simp add: verifyResource_def Let_def findById_save_loaded split: if_splits)
    with assms show ?thesis by simp
  qed
qed

lemma updateResource_demotion:
  assumes "findById (resourcesColl w) i = Some r" and "verified r"
      and "updateResource e w j body = (w', resp)"
      and "findById (resourcesColl w') i = Some r'" and "\<not> verified r'"
  shows "j = i \<and> (u_verified body = Some False
       \<or> (u_verified body = None
          \<and> (\<exists>newUrl. u_url body = Some newUrl \<and> newUrl \<noteq> url r
                \<and> \<not> isKnownAuthenticPlatform e newUrl
                \<and> \<not> isValid (snd (verifyUrl e (JsString newUrl) 10000)))))"
proof (cases "findById (resourcesColl w) j")
  case None
  with assms show ?thesis by (simp add: updateResource_def)
next
  case (Some old)
  obtain w1 body1 where vc: "verifyChangedUrl e w old body = (w1, body1)"
    by (cases "verifyChangedUrl e w old body") auto
  have k1: "resourcesColl w1 = resourcesColl w"
    using vc by (rule verifyChangedUrl_keeps)
  show ?thesis
  proof (cases "moveResource w1 old body1")
    case None
    with assms Some vc k1 show ?thesis by (simp add: updateResource_def)
  next
    case (Some w2)
    have k2: "resourcesColl w2 = resourcesColl w"
      using Some k1 moveResource_keeps by fastforce
    have ridr: "rid r = i" using assms(1) by (rule findById_rid)
    have rido: "rid old = j" using \<open>findById (resourcesColl w) j = Some old\<close> by (rule findById_rid)
    show ?thesis
    proof (cases "j = i")
      case True
      then have eq: "old = r" using \<open>findById (resourcesColl w) j = Some old\<close> assms(1) by simp
      have "u_verified body1 = Some False"
        using assms \<open>findById (resourcesColl w) j = Some old\<close> vc Some k2 True ridr
        by (auto simp add: updateResource_def Let_def findById_save_loaded refreshOwner_keeps
            applyUpdate_def split: if_splits option.splits)
      with vc eq True show ?thesis using verifyChangedUrl_false by blast
    next
      case False
      have "r' = r"
        using assms \<open>findById (resourcesColl w) j = Some old\<close> vc Some k2 False ridr rido
        by (auto simp add: updateResource_def Let_def findById_save_loaded refreshOwner_keeps
            applyUpdate_def split: if_splits option.splits)
      with assms show ?thesis by simp
    qed
  qed
qed

lemma decideVerification_known:
  "isKnownAuthenticPlatform e u \<Longrightarrow> decideVerification e w u = (w, True, None)"
  by (simp add: decideVerification_def)

lemma decideVerification_probe:
  "\<not> isKnownAuthenticPlatform e u \<Longrightarrow>
     decideVerification e w u =
       (w \<lparr> netCalls := netCalls w @ fst (verifyUrl e (JsString u) 10000) \<rparr>,
        isValid (snd (verifyUrl e (JsString u) 10000)),
        (if isValid (snd (verifyUrl e (JsString u) 10000)) then None
         else error (snd (verifyUrl e (JsString u) 10000))))"
  by (simp add: decideVerification_def split: prod.splits)

lemma known_udemy: "isKnownAuthenticPlatform (envStatus k) ''https://www.udemy.com/course/sql''"
  by (simp add: isKnownAuthenticPlatform_def envStatus_def url_eval)

lemma unknown_unreachable:
  "\<not> isKnownAuthenticPlatform (envStatus k) ''http://unreachable.example.net/course''"
  by (simp add: isKnownAuthenticPlatform_def envStatus_def url_eval)

lemma probe_unreachable:
  "verifyUrl (envStatus 404) (JsString ''http://unreachable.example.net/course'') 10000 =
     ([\<lparr> req_https = False, req_hostname = ''unreachable.example.net'', req_port = ''80'',
         req_path = ''/course'', req_method = ''HEAD'', req_timeout = 10000,
         req_rejectUnauthorized = False \<rparr>],
      \<lparr> isValid = False, statusCode = Some 404, error = Some ''HTTP 404'' \<rparr>)"
  by (simp add: verifyUrl_def envStatus_def requestOptions_def classify_def alwaysStatus_def
      url_eval)

lemma unknown_down:
  "\<not> isKnownAuthenticPlatform (envStatus k) ''http://down.example.net/intro''"
  by (simp add: isKnownAuthenticPlatform_def envStatus_def url_eval)

lemma probe_down:
  "verifyUrl (envStatus 503) (JsString ''http://down.example.net/intro'') 10000 =
     ([\<lparr> req_https = False, req_hostname = ''down.example.net'', req_port = ''80'',
         req_path = ''/intro'', req_method = ''HEAD'', req_timeout = 10000,
         req_rejectUnauthorized = False \<rparr>],
      \<lparr> isValid = False, statusCode = Some 503, error = Some ''HTTP 503'' \<rparr>)"
  by (simp add: verifyUrl_def envStatus_def requestOptions_def classify_def alwaysStatus_def
      url_eval)

lemma unknown_old:
  "\<not> isKnownAuthenticPlatform (envStatus k) ''http://old.example.org/course''"
  by (simp add: isKnownAuthenticPlatform_def envStatus_def url_eval)

lemma probe_old:
  "verifyUrl (envStatus 404) (JsString ''http://old.example.org/course'') 10000 =
     ([\<lparr> req_https = False, req_hostname = ''old.example.org'', req_port = ''80'',
         req_path = ''/course'', req_method = ''HEAD'', req_timeout = 10000,
         req_rejectUnauthorized = False \<rparr>],
      \<lparr> isValid = False, statusCode = Some 404, error = Some ''HTTP 404'' \<rparr>)"
  by (simp add: verifyUrl_def envStatus_def requestOptions_def classify_def alwaysStatus_def
      url_eval)

lemma unknown_new:
  "\<not> isKnownAuthenticPlatform (envStatus k) ''http://new.example.org/course''"
  by (simp add: isKnownAuthenticPlatform_def envStatus_def url_eval)

lemma probe_new:
  "verifyUrl (envStatus 404) (JsString ''http://new.example.org/course'') 10000 =
     ([\<lparr> req_https = False, req_hostname = ''new.example.org'', req_port = ''80'',
         req_path = ''/course'', req_method = ''HEAD'', req_timeout = 10000,
         req_rejectUnauthorized = False \<rparr>],
      \<lparr> isValid = False, statusCode = Some 404, error = Some ''HTTP 404'' \<rparr>)"
  by (simp add: verifyUrl_def envStatus_def requestOptions_def classify_def alwaysStatus_def
      url_eval)

lemma envStatus_valid: "resourceValid (envStatus k) r"
  by (simp add: envStatus_def acceptAll_def)

lemma oneWorld_find:
  "findById (resourcesColl oneWorld) 11 = Some (course 11 ''http://old.example.org/course'' 4 (Some 10))"
  by (simp add: oneWorld_def findById_def course_def)

lemma verify_old:
  "findById (resourcesColl (fst (step (envStatus 404) oneWorld (Verify 11)))) 11 =
     Some ((course 11 ''http://old.example.org/course'' 4 (Some 10)) \<lparr> verified := False \<rparr>)"
proof -
  have u: "url (course 11 ''http://old.example.org/course'' 4 (Some 10)) =
             ''http://old.example.org/course''"
    by (simp add: course_def)
  show ?thesis
    by (simp add: verifyResource_def oneWorld_find u decideVerification_probe unknown_old
        probe_old envStatus_valid Let_def findById_saveResource)
qed

text \<open>
  C2, as amended. Whatever the state, one catalog mutation moves the \<open>verified\<close> flag
  of a stored resource from true to false only when it is the explicit re-verification
  of that resource with a URL off the allow-list whose probe fails, or an update of
  that resource whose body carries \<open>verified = false\<close>, or whose body carries no
  \<open>verified\<close> field and changes the URL to one off the allow-list whose probe fails.
  Creation, toggle-active, delete, restore, the two bulk operations and the view counter
  never do. The claim as stated fails on the update handler, which writes
  \<open>req.body.verified = false\<close> itself after a failed probe of a changed URL and hands
  an explicit \<open>verified: false\<close> to the store.
\<close>

theorem verified_demoted_only_by_verify_or_update:
  assumes "findById (resourcesColl w) i = Some r" and "verified r"
      and "step e w op = (w', resp)"
      and "findById (resourcesColl w') i = Some r'" and "\<not> verified r'"
  shows "(op = Verify i \<and> \<not> isKnownAuthenticPlatform e (url r)
            \<and> \<not> isValid (snd (verifyUrl e (JsString (url r)) 10000)))
       \<or> (\<exists>body. op = Update i body
            \<and> (u_verified body = Some False
               \<or> (u_verified body = None
                  \<and> (\<exists>newUrl. u_url body = Some newUrl \<and> newUrl \<noteq> url r
                        \<and> \<not> isKnownAuthenticPlatform e newUrl
                        \<and> \<not> isValid (snd (verifyUrl e (JsString newUrl) 10000))))))"
proof (cases op)
  case (Create body)
  with assms create_keeps_verified [of w i r e body w' resp] show ?thesis by simp
next
  case (Update j body)
  with assms updateResource_demotion [of w i r e j body w' resp r'] show ?thesis by simp
next
  case (Verify j)
  with assms verifyResource_demotion [of w i r e j w' resp r'] show ?thesis by simp
next
  case (ToggleActive j)
  with assms toggle_keeps_verified [of w i r e j w' resp r'] show ?thesis by simp
next
  case (Delete j)
  with assms delete_keeps_verified [of w i r e j w' resp r'] show ?thesis by simp
next
  case (Restore j)
  with assms restore_keeps_verified [of w i r e j w' resp r'] show ?thesis by simp
next
  case (BulkVerify ids)
  with assms bulkVerify_keeps_verified [of w i r ids w' resp r'] show ?thesis by simp
next
  case (BulkDelete ids)
  with assms bulkDelete_keeps_verified [of w i r e ids w' resp r'] show ?thesis by simp
next
  case (TrackView j)
  with assms trackView_keeps_verified [of w i r j w' resp r'] show ?thesis by simp
qed

theorem verified_demoted_only_by_verify_or_update_witness:
  "verified (course 11 ''http://old.example.org/course'' 4 (Some 10))
   \<and> findById (resourcesColl oneWorld) 11 =
       Some (course 11 ''http://old.example.org/course'' 4 (Some 10))
   \<and> findById (resourcesColl (fst (step (envStatus 404) oneWorld (Verify 11)))) 11 =
       Some ((course 11 ''http://old.example.org/course'' 4 (Some 10)) \<lparr> verified := False \<rparr>)
   \<and> \<not> isKnownAuthenticPlatform (envStatus 404) ''http://old.example.org/course''
   \<and> \<not> isValid (snd (verifyUrl (envStatus 404) (JsString ''http://old.example.org/course'')
                        10000))"
proof -
  let ?r = "course 11 ''http://old.example.org/course'' 4 (Some 10)"
  have h1: "findById (resourcesColl oneWorld) 11 = Some ?r" by (rule oneWorld_find)
  have h2: "verified ?r" by (simp add: course_def)
  have h3: "step (envStatus 404) oneWorld (Verify 11) =
              (fst (step (envStatus 404) oneWorld (Verify 11)),
               snd (step (envStatus 404) oneWorld (Verify 11)))"
    by simp
  have h4: "findById (resourcesColl (fst (step (envStatus 404) oneWorld (Verify 11)))) 11 =
              Some (?r \<lparr> verified := False \<rparr>)"
    by (rule verify_old)
  have h5: "\<not> verified (?r \<lparr> verified := False \<rparr>)" by simp
  have u: "url ?r = ''http://old.example.org/course''" by (simp add: course_def)
  show ?thesis
    using h1 h2 h4 verified_demoted_only_by_verify_or_update [OF h1 h2 h3 h4 h5]
    by (simp add: u)
qed

theorem update_moves_verified_to_false_counterexample:
  "map_option verified (findById (resourcesColl oneWorld) 11) = Some True
   \<and> \<not> isKnownAuthenticPlatform (envStatus 404) ''http://new.example.org/course''
   \<and> \<not> isValid (snd (verifyUrl (envStatus 404) (JsString ''http://new.example.org/course'')
                        10000))
   \<and> status (snd (step (envStatus 404) oneWorld
        (Update 11 (noChange \<lparr> u_url := Some ''http://new.example.org/course'' \<rparr>)))) = 200
   \<and> map_option verified (findById (resourcesColl (fst (step (envStatus 404) oneWorld
        (Update 11 (noChange \<lparr> u_url := Some ''http://new.example.org/course'' \<rparr>))))) 11)
      = Some False
   \<and> status (snd (step (envStatus 200) oneWorld
        (Update 11 (noChange \<lparr> u_verified := Some False \<rparr>)))) = 200
   \<and> map_option verified (findById (resourcesColl (fst (step (envStatus 200) oneWorld
        (Update 11 (noChange \<lparr> u_verified := Some False \<rparr>))))) 11)
      = Some False"
proof -
  let ?r = "course 11 ''http://old.example.org/course'' 4 (Some 10)"
  have a: "verifyChangedUrl (envStatus 404) oneWorld ?r
             (noChange \<lparr> u_url := Some ''http://new.example.org/course'' \<rparr>) =
           (oneWorld \<lparr> netCalls := netCalls oneWorld @
                         fst (verifyUrl (envStatus 404)
                               (JsString ''http://new.example.org/course'') 10000),
                       consoleWarn := consoleWarn oneWorld @
                         [''Resource URL verification failed: http://new.example.org/course - HTTP 404''] \<rparr>,
            noChange \<lparr> u_url := Some ''http://new.example.org/course'',
                       u_verified := Some False \<rparr>)"
    by (simp add: verifyChangedUrl_def decideVerification_probe unknown_new probe_new
        noChange_def course_def Let_def)
  have b: "verifyChangedUrl (envStatus 200) oneWorld ?r (noChange \<lparr> u_verified := Some False \<rparr>)
             = (oneWorld, noChange \<lparr> u_verified := Some False \<rparr>)"
    by (simp add: verifyChangedUrl_def noChange_def)
  have m: "moveResource w ?r (noChange \<lparr> u_url := x, u_verified := y \<rparr>) = Some w" for w x y
    by (simp add: moveResource_def noChange_def)
  have m': "moveResource w ?r (noChange \<lparr> u_verified := y \<rparr>) = Some w" for w y
    by (simp add: moveResource_def noChange_def)
  have f: "findById (resourcesColl (oneWorld \<lparr> netCalls := n, consoleWarn := c \<rparr>)) 11 = Some ?r"
    for n c
    using oneWorld_find by simp
  show ?thesis
    by (simp add: updateResource_def oneWorld_find a b m m' f envStatus_valid Let_def
        refreshOwner_keeps findById_saveResource applyUpdate_def unknown_new probe_new)
       (simp add: noChange_def course_def)
qed

text \<open>
  C3, as amended. For a creation request whose URL is off the allow-list and whose probe
  fails, and which names an existing skill, a URL not yet listed and a document that
  the schema accepts: the handler answers 201, the new document is appended to the
  collection, its \<open>verified\<close> flag is the \<open>verified\<close> field of the request body
  (false when the field is absent), the probe is recorded, and the verification error
  is written with \<open>console.warn\<close>. The claim as stated fails for a body that carries
  \<open>verified = true\<close>: the document is stored verified.
\<close>

theorem createResource_probe_failure_not_blocking:
  assumes "skillsColl w (c_skill body) = Some sk"
      and "\<not> list_ex (\<lambda>r. url r = c_url body \<and> deletedAt r = None) (resourcesColl w)"
      and "\<not> isKnownAuthenticPlatform e (c_url body)"
      and "\<not> isValid (snd (verifyUrl e (JsString (c_url body)) 10000))"
      and "resourceValid e (newResource w body False)"
      and "createResource e w body = (w', resp)"
  shows "status resp = 201
       \<and> data resp = Some (newResource w body False)
       \<and> resourcesColl w' = resourcesColl w @ [newResource w body False]
       \<and> verified (newResource w body False) = (c_verified body = Some True)
       \<and> consoleWarn w' = consoleWarn w @
           [''Resource URL verification failed: '' @ c_url body @ '' - '' @
              errorOrDefault (error (snd (verifyUrl e (JsString (c_url body)) 10000)))]
       \<and> netCalls w' = netCalls w @ fst (verifyUrl e (JsString (c_url body)) 10000)"
proof -
  let ?w2 = "w \<lparr> netCalls := netCalls w @ fst (verifyUrl e (JsString (c_url body)) 10000),
                 consoleWarn := consoleWarn w @
                   [''Resource URL verification failed: '' @ c_url body @ '' - '' @
                      errorOrDefault (error (snd (verifyUrl e (JsString (c_url body)) 10000)))] \<rparr>"
  have n: "newResource ?w2 body False = newResource w body False"
    by (simp add: newResource_def)
  have v: "verified (newResource w body False) = (c_verified body = Some True)"
    by (auto simp add: newResource_def split: option.splits)
  show ?thesis
    using assms n v
    by (auto simp add: createResource_def decideVerification_probe Let_def addResource_keeps)
qed

theorem createResource_probe_failure_not_blocking_witness:
  "\<not> isKnownAuthenticPlatform (envStatus 404) ''http://unreachable.example.net/course''
   \<and> \<not> isValid (snd (verifyUrl (envStatus 404)
                        (JsString ''http://unreachable.example.net/course'') 10000))
   \<and> status (snd (createResource (envStatus 404) emptyWorld
                      (createBody ''http://unreachable.example.net/course'' None))) = 201
   \<and> map verified (resourcesColl (fst (createResource (envStatus 404) emptyWorld
                      (createBody ''http://unreachable.example.net/course'' None)))) = [False]
   \<and> consoleWarn (fst (createResource (envStatus 404) emptyWorld
                      (createBody ''http://unreachable.example.net/course'' None))) =
       [''Resource URL verification failed: http://unreachable.example.net/course - HTTP 404'']
   \<and> length (netCalls (fst (createResource (envStatus 404) emptyWorld
                      (createBody ''http://unreachable.example.net/course'' None)))) = 1"
proof -
  let ?b = "createBody ''http://unreachable.example.net/course'' None"
  have h1: "skillsColl emptyWorld (c_skill ?b) = Some freshSkill"
    by (simp add: emptyWorld_def createBody_def)
  have h2: "\<not> list_ex (\<lambda>r. url r = c_url ?b \<and> deletedAt r = None) (resourcesColl emptyWorld)"
    by (simp add: emptyWorld_def)
  have h3: "\<not> isKnownAuthenticPlatform (envStatus 404) (c_url ?b)"
    by (simp add: createBody_def unknown_unreachable)
  have h4: "\<not> isValid (snd (verifyUrl (envStatus 404) (JsString (c_url ?b)) 10000))"
    by (simp add: createBody_def probe_unreachable)
  have h5: "resourceValid (envStatus 404) (newResource emptyWorld ?b False)"
    by (rule envStatus_valid)
  have p: "createResource (envStatus 404) emptyWorld ?b =
             (fst (createResource (envStatus 404) emptyWorld ?b),
              snd (createResource (envStatus 404) emptyWorld ?b))"
    by simp
  have c: "c_url ?b = ''http://unreachable.example.net/course''" "c_verified ?b = None"
    by (simp_all add: createBody_def)
  show ?thesis
    using createResource_probe_failure_not_blocking [OF h1 h2 h3 h4 h5 p]
    by (simp add: c probe_unreachable unknown_unreachable errorOrDefault_def emptyWorld_def)
qed

theorem createResource_body_verified_counterexample:
  "\<not> isKnownAuthenticPlatform (envStatus 404) ''http://unreachable.example.net/course''
   \<and> \<not> isValid (snd (verifyUrl (envStatus 404)
                        (JsString ''http://unreachable.example.net/course'') 10000))
   \<and> status (snd (createResource (envStatus 404) emptyWorld
                      (createBody ''http://unreachable.example.net/course'' (Some True)))) = 201
   \<and> map verified (resourcesColl (fst (createResource (envStatus 404) emptyWorld
                      (createBody ''http://unreachable.example.net/course'' (Some True))))) = [True]"
  by (simp add: unknown_unreachable probe_unreachable createResource_def createBody_def
      decideVerification_probe emptyWorld_def envStatus_valid newResource_def addResource_keeps
      Let_def)


text \<open>
  C4. On creation the stored \<open>verified\<close> flag is the disjunction of the verification
  decision (allow-list, or a valid probe) and the \<open>verified\<close> field of the request
  body. The witness is a request that carries \<open>verified = true\<close> for a URL off the
  allow-list whose probe answers 503: the document is stored verified.
\<close>

theorem createResource_verified_is_or:
  assumes "createResource e w body = (w', resp)" and "status resp = 201"
  shows "\<exists>doc. data resp = Some doc
           \<and> resourcesColl w' = resourcesColl w @ [doc]
           \<and> verified doc =
               (isKnownAuthenticPlatform e (c_url body)
                \<or> isValid (snd (verifyUrl e (JsString (c_url body)) 10000))
                \<or> c_verified body = Some True)"
proof (cases "isKnownAuthenticPlatform e (c_url body)")
  case True
  with assms show ?thesis
    by (auto simp add: createResource_def decideVerification_known Let_def addResource_keeps
        newResource_def split: option.splits if_splits)
next
  case False
  with assms show ?thesis
    by (auto simp add: createResource_def decideVerification_probe Let_def addResource_keeps
        newResource_def split: option.splits if_splits)
qed

theorem createResource_verified_is_or_witness:
  "\<not> isKnownAuthenticPlatform (envStatus 503) ''http://down.example.net/intro''
   \<and> \<not> isValid (snd (verifyUrl (envStatus 503) (JsString ''http://down.example.net/intro'')
                        10000))
   \<and> c_verified (createBody ''http://down.example.net/intro'' (Some True)) = Some True
   \<and> status (snd (createResource (envStatus 503) emptyWorld
                      (createBody ''http://down.example.net/intro'' (Some True)))) = 201
   \<and> map verified (resourcesColl (fst (createResource (envStatus 503) emptyWorld
                      (createBody ''http://down.example.net/intro'' (Some True))))) = [True]"
proof -
  let ?b = "createBody ''http://down.example.net/intro'' (Some True)"
  have p: "createResource (envStatus 503) emptyWorld ?b =
             (fst (createResource (envStatus 503) emptyWorld ?b),
              snd (createResource (envStatus 503) emptyWorld ?b))"
    by simp
  have s: "status (snd (createResource (envStatus 503) emptyWorld ?b)) = 201"
    by (simp add: unknown_down probe_down createResource_def createBody_def
        decideVerification_probe emptyWorld_def envStatus_valid Let_def)
  have c: "c_url ?b = ''http://down.example.net/intro''" "c_verified ?b = Some True"
    by (simp_all add: createBody_def)
  show ?thesis
    using s createResource_verified_is_or [OF p s]
    by (auto simp add: c unknown_down probe_down emptyWorld_def)
qed












end
